theory Spec2Isabelle
  imports Main
begin

section \<open>Python values: exceptions and strings\<close>

text \<open>
  The handlers of \<^verbatim>\<open>database.py\<close> tell \<^verbatim>\<open>psycopg2.OperationalError\<close> apart from
  every other exception, and the handlers of \<^verbatim>\<open>rag.py\<close> catch \<^verbatim>\<open>Exception\<close>. An
  exception is therefore modelled by its class, as far as the handlers can see it, and by
  the text that \<^verbatim>\<open>str(e)\<close> gives. \<open>OtherException\<close> stands for every subclass of
  \<^verbatim>\<open>Exception\<close> that is not an \<^verbatim>\<open>OperationalError\<close> (a \<^verbatim>\<open>ProgrammingError\<close> for an
  unknown table or column, a \<^verbatim>\<open>PoolError\<close>, an \<^verbatim>\<open>IndexError\<close>, ...).
  A Python function that may raise returns \<open>exn + 'a\<close>, with \<open>Inl\<close> for the raise.
\<close>

datatype exn = OperationalError string | OtherException string

fun exn_str :: "exn \<Rightarrow> string" where
  "exn_str (OperationalError m) = m"
| "exn_str (OtherException m) = m"

fun is_operational :: "exn \<Rightarrow> bool" where
  "is_operational (OperationalError m) = True"
| "is_operational (OtherException m) = False"

text \<open>
  Strings are lists of characters with code points below 256. \<^verbatim>\<open>str.isspace\<close> on that
  range holds for the code points 9 to 13, 28 to 32, 133 and 160.
\<close>

definition isspace :: "char \<Rightarrow> bool" where
  "isspace c = (let n = (of_char c :: nat) in
     (9 \<le> n \<and> n \<le> 13) \<or> (28 \<le> n \<and> n \<le> 32) \<or> n = 133 \<or> n = 160)"

text \<open>\<^verbatim>\<open>s.strip()\<close>: leading and trailing whitespace removed.\<close>

definition strip :: "string \<Rightarrow> string" where
  "strip s = rev (dropWhile isspace (rev (dropWhile isspace s)))"

text \<open>\<^verbatim>\<open>s.split(sep)\<close> for a separator of one character; the result is never empty.\<close>

fun split_on :: "char \<Rightarrow> string \<Rightarrow> string list" where
  "split_on c [] = [[]]"
| "split_on c (x # xs) =
     (if x = c then [] # split_on c xs
      else (case split_on c xs of
              [] \<Rightarrow> [[x]]
            | y # ys \<Rightarrow> (x # y) # ys))"

text \<open>\<^verbatim>\<open>sep.join(xs)\<close>.\<close>

fun join :: "string \<Rightarrow> string list \<Rightarrow> string" where
  "join sep [] = []"
| "join sep [x] = x"
| "join sep (x # y # ys) = x @ sep @ join sep (y # ys)"

text \<open>\<^verbatim>\<open>p in s\<close> on strings: \<open>p\<close> occurs somewhere in \<open>s\<close>.\<close>

fun py_in :: "string \<Rightarrow> string \<Rightarrow> bool" where
  "py_in p [] = (p = [])"
| "py_in p (x # xs) = (take (length p) (x # xs) = p \<or> py_in p xs)"

text \<open>\<^verbatim>\<open>s.startswith(p)\<close>, which the source does not call: the reading "begins with".\<close>

definition startswith :: "string \<Rightarrow> string \<Rightarrow> bool" where
  "startswith s p = (take (length p) s = p)"

definition newline :: char where
  "newline = CHR 0x0A"

definition apostrophe :: char where
  "apostrophe = CHR 0x27"

section \<open>rag.py: the response formatter\<close>

text \<open>
  \<^verbatim>\<open>
  def _format_response(self, response):
      if isinstance(response, str):
          response_lines = response.strip().split("\n")
          if "Sample data from" in response_lines[0]:
              return "I have identified some sample data. Please specify if you need more details."
          return response_lines[0]
      return response
  \<close>
  Both callers pass a \<^verbatim>\<open>str\<close> (the output of the chain's string parser, and a
  joined string), so the model takes a string and the \<^verbatim>\<open>isinstance\<close> test is the
  type of the argument. \<^verbatim>\<open>response_lines[0]\<close> raises \<^verbatim>\<open>IndexError\<close> on an empty
  list, which is a branch of the model.
\<close>

definition sample_marker :: string where
  "sample_marker = ''Sample data from''"

definition sample_summary :: string where
  "sample_summary = ''I have identified some sample data. Please specify if you need more details.''"

definition format_response :: "string \<Rightarrow> exn + string" where
  "format_response response =
     (let response_lines = split_on newline (strip response) in
      case response_lines of
        [] \<Rightarrow> Inl (OtherException ''list index out of range'')
      | first_line # rest \<Rightarrow>
          if py_in sample_marker first_line then Inr sample_summary
          else Inr first_line)"

section \<open>rag.py: the assistant object\<close>

text \<open>
  \<^verbatim>\<open>Document\<close> carries a text and a metadata dictionary. The vector store, the
  retriever and the chain are objects of the libraries: the model keeps what they were
  built from, and takes their behaviour (embedding, similarity search, the language
  model) from a record of the backends' responses.
\<close>

record document =
  page_content :: string
  metadata :: "(string \<times> string) list"

definition Document :: "string \<Rightarrow> document" where
  "Document text = \<lparr>page_content = text, metadata = []\<rparr>"

datatype vstore = Chroma "document list"

datatype retriever = Retriever vstore

datatype chain = Chain retriever

record chat =
  vector_store :: "vstore option"
  retriever :: "retriever option"
  chain :: "chain option"
  "context" :: string

text \<open>
  What the libraries answer. Each field is one call of the source:
  \<^item> \<open>pdf_load\<close>: \<^verbatim>\<open>PyPDFLoader(file_path=p).load()\<close>;
  \<^item> \<open>split_documents\<close>: \<^verbatim>\<open>self.text_splitter.split_documents(docs)\<close>;
  \<^item> \<open>filter_complex_metadata\<close>: the function of that name;
  \<^item> \<open>from_documents\<close>: \<^verbatim>\<open>Chroma.from_documents(documents=chunks, embedding=...)\<close>, which
    embeds every chunk and may fail (\<open>Some e\<close>) when the embedding backend does;
  \<^item> \<open>get_relevant_documents\<close>: the similarity search of the retriever
    (\<^verbatim>\<open>k = 3\<close>, \<^verbatim>\<open>score_threshold = 0.5\<close>);
  \<^item> \<open>invoke\<close>: \<^verbatim>\<open>self.chain.invoke({"context": context, "question": query})\<close>.
\<close>

record backend =
  pdf_load :: "string \<Rightarrow> exn + document list"
  split_documents :: "document list \<Rightarrow> exn + document list"
  filter_complex_metadata :: "document list \<Rightarrow> exn + document list"
  from_documents :: "document list \<Rightarrow> exn option"
  get_relevant_documents :: "retriever \<Rightarrow> string \<Rightarrow> exn + document list"
  invoke :: "chain \<Rightarrow> string \<Rightarrow> string \<Rightarrow> exn + string"

text \<open>The state that \<^verbatim>\<open>__init__\<close> leaves.\<close>

definition init_chat :: chat where
  "init_chat = \<lparr>vector_store = None, retriever = None, chain = None, context = []\<rparr>"

text \<open>
  \<^verbatim>\<open>
  def clear(self):
      self.vector_store = None
      self.retriever = None
      self.chain = None
      self.context = ""
  \<close>
\<close>

definition clear :: "chat \<Rightarrow> chat" where
  "clear self = self\<lparr>vector_store := None, retriever := None, chain := None, context := []\<rparr>"

text \<open>
  \<^verbatim>\<open>
  def ask(self, query):
      if not self.chain:
          return "Please, add a document or connect to a database first."
      try:
          context_docs = self.retriever.get_relevant_documents(query)
          context = " ".join([doc.page_content for doc in context_docs])
          if not context.strip():
              context = self.context
          response = self.chain.invoke({"context": context, "question": query})
          return self._format_response(response)
      except Exception as e:
          return f"Error during query processing: {e}"
  \<close>
  \<open>ask_context\<close> is the context that the \<^verbatim>\<open>try\<close> block hands to the chain, and
  \<open>ask_try\<close> is the \<^verbatim>\<open>try\<close> block. A retriever that is \<^verbatim>\<open>None\<close> raises
  \<^verbatim>\<open>AttributeError\<close> at the method call.
\<close>

definition guidance :: string where
  "guidance = ''Please, add a document or connect to a database first.''"

definition ask_context :: "chat \<Rightarrow> document list \<Rightarrow> string" where
  "ask_context self context_docs =
     (let context0 = join '' '' (map page_content context_docs) in
      if strip context0 = [] then context self else context0)"

definition ask_try :: "backend \<Rightarrow> chat \<Rightarrow> chain \<Rightarrow> string \<Rightarrow> exn + string" where
  "ask_try be self c query =
     (case retriever self of
        None \<Rightarrow>
          Inl (OtherException ([apostrophe] @ ''NoneType'' @ [apostrophe] @
            '' object has no attribute '' @ [apostrophe] @ ''get_relevant_documents'' @ [apostrophe]))
      | Some r \<Rightarrow>
          (case get_relevant_documents be r query of
             Inl e \<Rightarrow> Inl e
           | Inr context_docs \<Rightarrow>
               (case invoke be c (ask_context self context_docs) query of
                  Inl e \<Rightarrow> Inl e
                | Inr response \<Rightarrow> format_response response)))"

definition ask :: "backend \<Rightarrow> chat \<Rightarrow> string \<Rightarrow> exn + string" where
  "ask be self query =
     (case chain self of
        None \<Rightarrow> Inr guidance
      | Some c \<Rightarrow>
          (case ask_try be self c query of
             Inl e \<Rightarrow> Inr (''Error during query processing: '' @ exn_str e)
           | Inr answer \<Rightarrow> Inr answer))"

section \<open>database.py: the connection pool and the query generator\<close>

text \<open>
  A cell of a row is modelled by the text that \<^verbatim>\<open>str(cell)\<close> gives; a row is the
  tuple that the driver returns, a batch is what one \<^verbatim>\<open>fetchmany\<close> returns.
\<close>

type_synonym cell = string
type_synonym row = "cell list"
type_synonym batch = "row list"

datatype connection = Connection

text \<open>
  What the database driver answers. Each field is one call of the source:
  \<^item> \<open>getconn\<close>: \<^verbatim>\<open>db_pool.getconn()\<close>, which raises or returns a connection
    (\<open>None\<close> is a falsy result);
  \<^item> \<open>new_cursor\<close>: \<^verbatim>\<open>connection.cursor()\<close>, \<open>Some e\<close> when it raises;
  \<^item> \<open>cursor_execute\<close>: \<^verbatim>\<open>cursor.execute(query, params)\<close>, \<open>Some e\<close> when it raises;
  \<^item> \<open>cursor_fetchmany\<close>: the results of the successive calls of
    \<^verbatim>\<open>cursor.fetchmany(batch_size)\<close> after the query was executed; past the end of the
    list the cursor is exhausted and returns the empty list;
  \<^item> \<open>cursor_close\<close>: \<^verbatim>\<open>cursor.close()\<close>, \<open>Some e\<close> when it raises;
  \<^item> \<open>putconn\<close>: \<^verbatim>\<open>db_pool.putconn(connection)\<close>, \<open>Some e\<close> when it raises.
\<close>

record driver =
  getconn :: "exn + connection option"
  new_cursor :: "exn option"
  cursor_execute :: "string \<Rightarrow> exn option"
  cursor_fetchmany :: "string \<Rightarrow> nat option \<Rightarrow> (exn + batch) list"
  cursor_close :: "exn option"
  putconn :: "exn option"

text \<open>
  The module state and what the module did to the driver: \<open>db_pool\<close> is the global of
  that name (\<open>None\<close> when it is \<^verbatim>\<open>None\<close>, \<open>Some n\<close> for a pool with \<open>n\<close> connections
  handed out), \<open>open_cursors\<close> counts cursors opened and not closed, \<open>executed\<close> lists
  the query texts passed to \<^verbatim>\<open>cursor.execute\<close>, in order.
\<close>

record db =
  db_pool :: "nat option"
  open_cursors :: nat
  executed :: "string list"

text \<open>
  \<^verbatim>\<open>
  def get_connection():
      if db_pool is not None:
          try:
              connection = db_pool.getconn()
              if connection:
                  return connection
          except OperationalError as e:
              logger.error(...)
      else:
          logger.error(...)
      return None
  \<close>
\<close>

definition get_connection :: "driver \<Rightarrow> db \<Rightarrow> (exn + connection option) \<times> db" where
  "get_connection drv w =
     (case db_pool w of
        None \<Rightarrow> (Inr None, w)
      | Some n \<Rightarrow>
          (case getconn drv of
             Inl e \<Rightarrow> if is_operational e then (Inr None, w) else (Inl e, w)
           | Inr None \<Rightarrow> (Inr None, w)
           | Inr (Some connection) \<Rightarrow> (Inr (Some connection), w\<lparr>db_pool := Some (Suc n)\<rparr>)))"

text \<open>
  \<^verbatim>\<open>
  def release_connection(connection):
      if db_pool is not None:
          try:
              db_pool.putconn(connection)
          except OperationalError as e:
              logger.error(...)
      else:
          logger.error(...)
  \<close>
\<close>

definition release_connection :: "driver \<Rightarrow> connection \<Rightarrow> db \<Rightarrow> exn option \<times> db" where
  "release_connection drv connection w =
     (case db_pool w of
        None \<Rightarrow> (None, w)
      | Some n \<Rightarrow>
          (case putconn drv of
             None \<Rightarrow> (None, w\<lparr>db_pool := Some (n - 1)\<rparr>)
           | Some e \<Rightarrow> if is_operational e then (None, w) else (Some e, w)))"

text \<open>
  \<^verbatim>\<open>
  def execute_query(query, params=None, batch_size=None):
      connection = get_connection()
      if connection is None:
          return None
      cursor = connection.cursor()
      try:
          cursor.execute(query, params)
          while True:
              results = cursor.fetchmany(batch_size)
              if not results:
                  break
              yield results
      except OperationalError as e:
          logger.error(...)
      finally:
          cursor.close()
          release_connection(connection)
  \<close>
  The function is a generator, and every caller in the repository runs it to its end
  (\<^verbatim>\<open>list(...)\<close>, or a \<^verbatim>\<open>for\<close> loop whose body neither breaks nor touches the
  database). A run of the generator to its end is modelled by the list of the batches it
  yields and the exception that ends it, if one does: \<open>(yielded, raised)\<close>.
  \<open>fetch_loop\<close> is the \<^verbatim>\<open>while\<close> loop over the results of \<^verbatim>\<open>fetchmany\<close>.
\<close>

type_synonym generator_run = "batch list \<times> exn option"

fun fetch_loop :: "(exn + batch) list \<Rightarrow> generator_run" where
  "fetch_loop [] = ([], None)"
| "fetch_loop (Inl e # rest) = ([], Some e)"
| "fetch_loop (Inr results # rest) =
     (if results = [] then ([], None)
      else (case fetch_loop rest of (yielded, raised) \<Rightarrow> (results # yielded, raised)))"

text \<open>The \<^verbatim>\<open>try\<close> block with its \<^verbatim>\<open>except OperationalError\<close> clause.\<close>

definition execute_try :: "driver \<Rightarrow> string \<Rightarrow> nat option \<Rightarrow> generator_run" where
  "execute_try drv query batch_size =
     (case (case cursor_execute drv query of
              Some e \<Rightarrow> ([], Some e)
            | None \<Rightarrow> fetch_loop (cursor_fetchmany drv query batch_size)) of
        (yielded, None) \<Rightarrow> (yielded, None)
      | (yielded, Some e) \<Rightarrow> if is_operational e then (yielded, None) else (yielded, Some e))"

text \<open>
  The \<^verbatim>\<open>finally\<close> clause: an exception raised by \<^verbatim>\<open>cursor.close()\<close> or by
  \<^verbatim>\<open>release_connection\<close> replaces the pending one and skips what follows.
\<close>

definition execute_finally :: "driver \<Rightarrow> connection \<Rightarrow> exn option \<Rightarrow> db \<Rightarrow> exn option \<times> db" where
  "execute_finally drv connection pending w =
     (case cursor_close drv of
        Some e \<Rightarrow> (Some e, w)
      | None \<Rightarrow>
          (case release_connection drv connection (w\<lparr>open_cursors := open_cursors w - 1\<rparr>) of
             (Some e, w') \<Rightarrow> (Some e, w')
           | (None, w') \<Rightarrow> (pending, w')))"

definition execute_query :: "driver \<Rightarrow> string \<Rightarrow> nat option \<Rightarrow> db \<Rightarrow> generator_run \<times> db" where
  "execute_query drv query batch_size w =
     (case get_connection drv w of
        (Inl e, w1) \<Rightarrow> (([], Some e), w1)
      | (Inr None, w1) \<Rightarrow> (([], None), w1)
      | (Inr (Some connection), w1) \<Rightarrow>
          (case new_cursor drv of
             Some e \<Rightarrow> (([], Some e), w1)
           | None \<Rightarrow>
               (case execute_try drv query batch_size of
                  (yielded, pending) \<Rightarrow>
                    (case execute_finally drv connection pending
                            (w1\<lparr>open_cursors := Suc (open_cursors w1),
                                executed := executed w1 @ [query]\<rparr>) of
                       (raised, w2) \<Rightarrow> ((yielded, raised), w2)))))"

text \<open>\<^verbatim>\<open>list(gen)\<close>: the batches, unless the generator raises.\<close>

definition list_of :: "generator_run \<Rightarrow> exn + batch list" where
  "list_of run = (case run of (yielded, None) \<Rightarrow> Inr yielded | (yielded, Some e) \<Rightarrow> Inl e)"

text \<open>\<^verbatim>\<open>t[i]\<close> on a tuple, and a comprehension whose element expressions may raise.\<close>

definition index :: "'a list \<Rightarrow> nat \<Rightarrow> exn + 'a" where
  "index xs i = (if i < length xs then Inr (xs ! i) else Inl (OtherException ''tuple index out of range''))"

fun sequence :: "(exn + 'a) list \<Rightarrow> exn + 'a list" where
  "sequence [] = Inr []"
| "sequence (Inl e # rest) = Inl e"
| "sequence (Inr x # rest) = (case sequence rest of Inl e \<Rightarrow> Inl e | Inr xs \<Rightarrow> Inr (x # xs))"

text \<open>
  \<^verbatim>\<open>
  def get_table_names():
      query = "SELECT table_name FROM information_schema.tables WHERE table_schema='public'"
      result = list(execute_query(query))
      return [row[0] for batch in result for row in batch] if result else []
  \<close>
\<close>

definition table_names_query :: string where
  "table_names_query = ''SELECT table_name FROM information_schema.tables WHERE table_schema=''
     @ [apostrophe] @ ''public'' @ [apostrophe]"

definition get_table_names :: "driver \<Rightarrow> db \<Rightarrow> (exn + string list) \<times> db" where
  "get_table_names drv w =
     (case execute_query drv table_names_query None w of
        (run, w') \<Rightarrow>
          (case list_of run of
             Inl e \<Rightarrow> (Inl e, w')
           | Inr result \<Rightarrow>
               (if result \<noteq> [] then sequence (map (\<lambda>row. index row 0) (concat result)) else Inr [], w')))"

section \<open>rag.py: ingestion\<close>

text \<open>
  \<^verbatim>\<open>
  async def _initialize_vector_store(self, chunks):
      try:
          self.vector_store = Chroma.from_documents(documents=chunks, embedding=FastEmbedEmbeddings())
          self.retriever = self.vector_store.as_retriever(...)
          self.chain = ({"context": self.retriever, "question": RunnablePassthrough()}
                        | self.prompt | self.model | StrOutputParser())
      except Exception as e:
          return f"Error initializing vector store: {e}"
  \<close>
  Building the retriever and composing the chain are constructions on constant
  arguments; the call that reaches the embedding backend is \<^verbatim>\<open>from_documents\<close>.
\<close>

definition initialize_vector_store :: "backend \<Rightarrow> document list \<Rightarrow> chat \<Rightarrow> string option \<times> chat" where
  "initialize_vector_store be chunks self =
     (case from_documents be chunks of
        Some e \<Rightarrow> (Some (''Error initializing vector store: '' @ exn_str e), self)
      | None \<Rightarrow>
          (None, self\<lparr>vector_store := Some (Chroma chunks),
                      retriever := Some (Retriever (Chroma chunks)),
                      chain := Some (Chain (Retriever (Chroma chunks)))\<rparr>))"

text \<open>
  \<^verbatim>\<open>
  async def ingest_document(self, pdf_file_path):
      try:
          docs = PyPDFLoader(file_path=pdf_file_path).load()
          chunks = self.text_splitter.split_documents(docs)
          chunks = filter_complex_metadata(chunks)
          await self._initialize_vector_store(chunks)
      except Exception as e:
          return f"Error during document ingestion: {e}"
  \<close>
  The value of \<^verbatim>\<open>_initialize_vector_store\<close> is dropped, and the function returns
  \<^verbatim>\<open>None\<close> when the \<^verbatim>\<open>try\<close> block ends.
\<close>

definition ingest_document_try :: "backend \<Rightarrow> string \<Rightarrow> exn + document list" where
  "ingest_document_try be pdf_file_path =
     (case pdf_load be pdf_file_path of
        Inl e \<Rightarrow> Inl e
      | Inr docs \<Rightarrow>
          (case split_documents be docs of
             Inl e \<Rightarrow> Inl e
           | Inr chunks \<Rightarrow> filter_complex_metadata be chunks))"

definition ingest_document :: "backend \<Rightarrow> string \<Rightarrow> chat \<Rightarrow> string option \<times> chat" where
  "ingest_document be pdf_file_path self =
     (case ingest_document_try be pdf_file_path of
        Inl e \<Rightarrow> (Some (''Error during document ingestion: '' @ exn_str e), self)
      | Inr chunks \<Rightarrow>
          (case initialize_vector_store be chunks self of
             (dropped, self') \<Rightarrow> (None, self')))"

text \<open>The query texts of \<^verbatim>\<open>ingest_database\<close> and \<^verbatim>\<open>generate_insights\<close>, character by character.\<close>

definition metadata_query :: "string \<Rightarrow> string" where
  "metadata_query table = join [newline]
     [[],
      ''                SELECT column_name, data_type'',
      ''                FROM information_schema.columns'',
      ''                WHERE table_name = '' @ [apostrophe] @ table @ [apostrophe] @ '';'',
      ''                '']"

definition data_query :: "string \<Rightarrow> string" where
  "data_query table = ''SELECT * FROM '' @ table"

definition sample_query :: "string \<Rightarrow> string" where
  "sample_query table = ''SELECT * FROM '' @ table @ '' LIMIT 5''"

definition relationship_query :: string where
  "relationship_query = join [newline]
     [[],
      ''                SELECT '',
      ''                    tc.table_name, kcu.column_name, '',
      ''                    ccu.ss AS foreign_table_name,'',
      ''                    ccu.column_name AS foreign_column_name '',
      ''                FROM '',
      ''                    information_schema.table_constraints AS tc '',
      ''                    JOIN information_schema.key_column_usage AS kcu'',
      ''                      ON tc.constraint_name = kcu.constraint_name'',
      ''                    JOIN information_schema.constraint_column_usage AS ccu '',
      ''                      ON ccu.constraint_name = tc.constraint_name'',
      ''                WHERE constraint_type = '' @ [apostrophe] @ ''FOREIGN KEY'' @ [apostrophe] @ '';'',
      ''                '']"

text \<open>
  \<^verbatim>\<open>
  async def fetch_table_data(table):
      metadata_query = f"""... WHERE table_name = '{table}'; ..."""
      metadata_result = list(execute_query(metadata_query))
      if metadata_result:
          metadata_text = f"Table: {table}\nColumns:\n"
          metadata_text += "\n".join([f"{column[0]} ({column[1]})"
                                      for batch in metadata_result for column in batch])
          all_chunks.append(Document(page_content=metadata_text))
      data_query = f"SELECT * FROM {table}"
      for batch in execute_query(data_query, batch_size=1000):
          for row in batch:
              row_text = " | ".join(str(cell) for cell in row)
              all_chunks.append(Document(page_content=f"Table: {table}\n{row_text}"))
  \<close>
  A task takes the shared list \<^verbatim>\<open>all_chunks\<close> and the database state and returns the
  exception it raised, if any, with both as it left them.
\<close>

type_synonym task = "document list \<times> db \<Rightarrow> exn option \<times> document list \<times> db"

definition column_line :: "row \<Rightarrow> exn + string" where
  "column_line column =
     (case index column 0 of
        Inl e \<Rightarrow> Inl e
      | Inr c0 \<Rightarrow>
          (case index column 1 of
             Inl e \<Rightarrow> Inl e
           | Inr c1 \<Rightarrow> Inr (c0 @ '' ('' @ c1 @ '')'')))"

definition metadata_chunk :: "string \<Rightarrow> batch list \<Rightarrow> exn + document" where
  "metadata_chunk table metadata_result =
     (case sequence (map column_line (concat metadata_result)) of
        Inl e \<Rightarrow> Inl e
      | Inr lines \<Rightarrow>
          Inr (Document (''Table: '' @ table @ [newline] @ ''Columns:'' @ [newline] @ join [newline] lines)))"

definition row_chunk :: "string \<Rightarrow> row \<Rightarrow> document" where
  "row_chunk table row = Document (''Table: '' @ table @ [newline] @ join '' | '' row)"

definition fetch_table_rows :: "driver \<Rightarrow> string \<Rightarrow> task" where
  "fetch_table_rows drv table = (\<lambda>(all_chunks, w).
     (case execute_query drv (data_query table) (Some 1000) w of
        ((yielded, raised), w') \<Rightarrow>
          (raised, all_chunks @ map (row_chunk table) (concat yielded), w')))"

definition fetch_table_data :: "driver \<Rightarrow> string \<Rightarrow> task" where
  "fetch_table_data drv table = (\<lambda>(all_chunks, w).
     (case execute_query drv (metadata_query table) None w of
        (run, w1) \<Rightarrow>
          (case list_of run of
             Inl e \<Rightarrow> (Some e, all_chunks, w1)
           | Inr metadata_result \<Rightarrow>
               if metadata_result \<noteq> [] then
                 (case metadata_chunk table metadata_result of
                    Inl e \<Rightarrow> (Some e, all_chunks, w1)
                  | Inr chunk \<Rightarrow> fetch_table_rows drv table (all_chunks @ [chunk], w1))
               else fetch_table_rows drv table (all_chunks, w1))))"

text \<open>
  \<^verbatim>\<open>
  async def fetch_relationships():
      relationship_query = """..."""
      relationship_result = list(execute_query(relationship_query))
      if relationship_result:
          relationship_text = "Relationships among tables:\n"
          relationship_text += "\n".join([f"{row[0]} ({row[1]}) -> {row[2]} ({row[3]})"
                                          for batch in relationship_result for row in batch])
          all_chunks.append(Document(page_content=relationship_text))
  \<close>
\<close>

definition relationship_line :: "row \<Rightarrow> exn + string" where
  "relationship_line row =
     (case index row 0 of
        Inl e \<Rightarrow> Inl e
      | Inr c0 \<Rightarrow>
          (case index row 1 of
             Inl e \<Rightarrow> Inl e
           | Inr c1 \<Rightarrow>
               (case index row 2 of
                  Inl e \<Rightarrow> Inl e
                | Inr c2 \<Rightarrow>
                    (case index row 3 of
                       Inl e \<Rightarrow> Inl e
                     | Inr c3 \<Rightarrow> Inr (c0 @ '' ('' @ c1 @ '') -> '' @ c2 @ '' ('' @ c3 @ '')'')))))"

definition relationship_chunk :: "batch list \<Rightarrow> exn + document" where
  "relationship_chunk relationship_result =
     (case sequence (map relationship_line (concat relationship_result)) of
        Inl e \<Rightarrow> Inl e
      | Inr lines \<Rightarrow>
          Inr (Document (''Relationships among tables:'' @ [newline] @ join [newline] lines)))"

definition fetch_relationships :: "driver \<Rightarrow> task" where
  "fetch_relationships drv = (\<lambda>(all_chunks, w).
     (case execute_query drv relationship_query None w of
        (run, w1) \<Rightarrow>
          (case list_of run of
             Inl e \<Rightarrow> (Some e, all_chunks, w1)
           | Inr relationship_result \<Rightarrow>
               if relationship_result \<noteq> [] then
                 (case relationship_chunk relationship_result of
                    Inl e \<Rightarrow> (Some e, all_chunks, w1)
                  | Inr chunk \<Rightarrow> (None, all_chunks @ [chunk], w1))
               else (None, all_chunks, w1))))"

text \<open>
  \<^verbatim>\<open>await asyncio.gather(*tasks)\<close>. No task body contains an \<^verbatim>\<open>await\<close>, so the event
  loop runs each task from its start to its end, in the order of \<^verbatim>\<open>tasks\<close>, before it
  resumes the caller; \<^verbatim>\<open>gather\<close> (called without \<^verbatim>\<open>return_exceptions\<close>) then raises
  the exception of the first task that failed, and the later tasks have run all the same.
\<close>

fun gather :: "task list \<Rightarrow> task" where
  "gather [] (all_chunks, w) = (None, all_chunks, w)"
| "gather (t # ts) (all_chunks, w) =
     (case t (all_chunks, w) of
        (raised, all_chunks1, w1) \<Rightarrow>
          (case gather ts (all_chunks1, w1) of
             (raised_later, all_chunks2, w2) \<Rightarrow>
               ((case raised of Some e \<Rightarrow> Some e | None \<Rightarrow> raised_later), all_chunks2, w2)))"

text \<open>
  \<^verbatim>\<open>
  async def ingest_database(self, tables):
      try:
          all_chunks = []
          tasks = []
          ...
          for table in tables:
              tasks.append(fetch_table_data(table))
          tasks.append(fetch_relationships())
          await asyncio.gather(*tasks)
          self.context = "\n".join([doc.page_content for doc in all_chunks])
          await self._initialize_vector_store(all_chunks)
      except Exception as e:
          return f"Error during database ingestion: {e}"
  \<close>
\<close>

definition ingest_tasks :: "driver \<Rightarrow> string list \<Rightarrow> task list" where
  "ingest_tasks drv tables = map (fetch_table_data drv) tables @ [fetch_relationships drv]"

definition ingest_database ::
    "driver \<Rightarrow> backend \<Rightarrow> string list \<Rightarrow> chat \<times> db \<Rightarrow> string option \<times> chat \<times> db" where
  "ingest_database drv be tables = (\<lambda>(self, w).
     (case gather (ingest_tasks drv tables) ([], w) of
        (Some e, all_chunks, w') \<Rightarrow>
          (Some (''Error during database ingestion: '' @ exn_str e), self, w')
      | (None, all_chunks, w') \<Rightarrow>
          (case initialize_vector_store be all_chunks
                  (self\<lparr>context := join [newline] (map page_content all_chunks)\<rparr>) of
             (dropped, self') \<Rightarrow> (None, self', w'))))"

text \<open>
  \<^verbatim>\<open>
  def generate_insights(self, tables, query):
      try:
          insights = []
          for table in tables:
              data_query = f"SELECT * FROM {table} LIMIT 5"
              data_sample = list(execute_query(data_query))
              if data_sample:
                  insights.append(f"Sample data from {table}: {data_sample}")
          response = " ".join(insights)
          return self._format_response(response)
      except Exception as e:
          return f"Error generating insights: {e}"
  \<close>
  \<open>py_repr\<close> is the text that formatting the list \<^verbatim>\<open>data_sample\<close> gives.
\<close>

fun insights_loop ::
    "driver \<Rightarrow> (batch list \<Rightarrow> string) \<Rightarrow> string list \<Rightarrow> string list \<times> db \<Rightarrow> (exn + string list) \<times> db" where
  "insights_loop drv py_repr [] (insights, w) = (Inr insights, w)"
| "insights_loop drv py_repr (table # tables) (insights, w) =
     (case execute_query drv (sample_query table) None w of
        (run, w1) \<Rightarrow>
          (case list_of run of
             Inl e \<Rightarrow> (Inl e, w1)
           | Inr data_sample \<Rightarrow>
               insights_loop drv py_repr tables
                 (if data_sample \<noteq> []
                  then insights @ [''Sample data from '' @ table @ '': '' @ py_repr data_sample]
                  else insights, w1)))"

definition generate_insights ::
    "driver \<Rightarrow> (batch list \<Rightarrow> string) \<Rightarrow> string list \<Rightarrow> string \<Rightarrow> db \<Rightarrow> string \<times> db" where
  "generate_insights drv py_repr tables query w =
     (case insights_loop drv py_repr tables ([], w) of
        (Inl e, w') \<Rightarrow> (''Error generating insights: '' @ exn_str e, w')
      | (Inr insights, w') \<Rightarrow>
          (case format_response (join '' '' insights) of
             Inl e \<Rightarrow> (''Error generating insights: '' @ exn_str e, w')
           | Inr answer \<Rightarrow> (answer, w')))"

section \<open>Conditions and example runs\<close>

text \<open>
  A driver is \<open>healthy\<close> when the pool hands out a connection, the connection gives a
  cursor, and closing the cursor and returning the connection do not raise. Nothing is
  said about what the queries do.
\<close>

definition healthy :: "driver \<Rightarrow> bool" where
  "healthy drv = (getconn drv = Inr (Some Connection) \<and> new_cursor drv = None \<and>
     cursor_close drv = None \<and> putconn drv = None)"

text \<open>
  Backends for the examples: one that works (the search finds nothing above the
  threshold, and the model repeats the context it was given), one whose search fails, one
  whose model fails, and one whose embedding backend is unreachable.
\<close>

definition demo_backend :: backend where
  "demo_backend = \<lparr>pdf_load = (\<lambda>p. Inr [Document ''The sky is blue.'']),
     split_documents = Inr, filter_complex_metadata = Inr,
     from_documents = (\<lambda>chunks. None),
     get_relevant_documents = (\<lambda>r q. Inr []),
     invoke = (\<lambda>c ctx q. Inr (''context: '' @ ctx))\<rparr>"

definition failing_search_backend :: backend where
  "failing_search_backend =
     demo_backend\<lparr>get_relevant_documents := (\<lambda>r q. Inl (OtherException ''connection refused''))\<rparr>"

definition failing_model_backend :: backend where
  "failing_model_backend =
     demo_backend\<lparr>invoke := (\<lambda>c ctx q. Inl (OtherException ''model not found''))\<rparr>"

definition failing_embedding_backend :: backend where
  "failing_embedding_backend =
     demo_backend\<lparr>from_documents := (\<lambda>chunks. Some (OtherException ''embedding backend unreachable''))\<rparr>"

text \<open>The assistant after one document was ingested with the working backend.\<close>

definition demo_chat :: chat where
  "demo_chat = snd (ingest_document demo_backend ''report.pdf'' init_chat)"

text \<open>
  A database with the tables \<^verbatim>\<open>users(id, name)\<close> and \<^verbatim>\<open>orders(id, user_id)\<close> and the
  foreign key from \<^verbatim>\<open>orders.user_id\<close> to \<^verbatim>\<open>users.id\<close>, behind an initialised pool.
  \<open>demo_driver\<close> answers the relationship query with that edge and rejects the row query
  of a table that does not exist; \<open>strict_driver\<close> also rejects the relationship query,
  whose column \<^verbatim>\<open>ccu.ss\<close> does not exist.
\<close>

definition demo_db :: db where
  "demo_db = \<lparr>db_pool = Some 0, open_cursors = 0, executed = []\<rparr>"

definition demo_fetchmany :: "string \<Rightarrow> nat option \<Rightarrow> (exn + batch) list" where
  "demo_fetchmany q b =
     (if q = table_names_query then [Inr [[''users''], [''orders'']]]
      else if q = metadata_query ''users'' then [Inr [[''id'', ''integer''], [''name'', ''text'']]]
      else if q = data_query ''users'' then [Inr [[''1'', ''Ann'']]]
      else if q = sample_query ''users'' then [Inr [[''1'', ''Ann'']]]
      else if q = relationship_query then [Inr [[''orders'', ''user_id'', ''users'', ''id'']]]
      else [])"

definition demo_driver :: driver where
  "demo_driver = \<lparr>getconn = Inr (Some Connection), new_cursor = None,
     cursor_execute = (\<lambda>q. if q = data_query ''missing''
        then Some (OtherException ''relation missing does not exist'') else None),
     cursor_fetchmany = demo_fetchmany,
     cursor_close = None, putconn = None\<rparr>"

definition strict_driver :: driver where
  "strict_driver = demo_driver\<lparr>cursor_execute := (\<lambda>q. if q = relationship_query
        then Some (OtherException ''column ccu.ss does not exist'') else None)\<rparr>"

definition unreachable_driver :: driver where
  "unreachable_driver = demo_driver\<lparr>cursor_execute :=
     (\<lambda>q. Some (OperationalError ''server closed the connection unexpectedly''))\<rparr>"

section \<open>Strings\<close>

lemma take_eq_iff_prefix: "take (length p) s = p \<longleftrightarrow> (\<exists>b. s = p @ b)"
  by (metis append_eq_conv_conj append_take_drop_id)

lemma py_in_iff: "py_in p s \<longleftrightarrow> (\<exists>a b. s = a @ p @ b)"
proof (induction s)
  case Nil
  then show ?case by auto
next
  case (Cons x xs)
  have "(\<exists>a b. x # xs = a @ p @ b) \<longleftrightarrow> (\<exists>b. x # xs = p @ b) \<or> (\<exists>a b. xs = a @ p @ b)"
  proof
    assume "\<exists>a b. x # xs = a @ p @ b"
    then obtain a b where ab: "x # xs = a @ p @ b" by blast
    show "(\<exists>b. x # xs = p @ b) \<or> (\<exists>a b. xs = a @ p @ b)"
    proof (cases a)
      case Nil
      with ab show ?thesis by auto
    next
      case (Cons y ys)
      with ab have "xs = ys @ p @ b" by simp
      then show ?thesis by blast
    qed
  next
    assume "(\<exists>b. x # xs = p @ b) \<or> (\<exists>a b. xs = a @ p @ b)"
    then show "\<exists>a b. x # xs = a @ p @ b"
    proof
      assume "\<exists>b. x # xs = p @ b"
      then obtain b where "x # xs = [] @ p @ b" by auto
      then show ?thesis by blast
    next
      assume "\<exists>a b. xs = a @ p @ b"
      then obtain a b where "x # xs = (x # a) @ p @ b" by auto
      then show ?thesis by blast
    qed
  qed
  with Cons show ?case by (simp only: py_in.simps take_eq_iff_prefix)
qed

lemma split_on_not_Nil: "split_on c s \<noteq> []"
  by (induction s) (auto split: list.splits)

lemma join_Cons_first: "join sep ((x # a) # rest) = x # join sep (a # rest)"
  by (cases rest) auto

lemma join_split_on: "join [c] (split_on c s) = s"
proof (induction s)
  case Nil
  then show ?case by simp
next
  case (Cons x xs)
  obtain a rest where sp: "split_on c xs = a # rest"
    using split_on_not_Nil [of c xs] by (cases "split_on c xs") auto
  with Cons have xs: "join [c] (a # rest) = xs" by simp
  show ?case
  proof (cases "x = c")
    case True
    then show ?thesis using sp xs by simp
  next
    case False
    then show ?thesis using sp xs by (simp add: join_Cons_first)
  qed
qed

lemma split_on_first: "split_on c s = first # rest \<Longrightarrow> c \<notin> set first"
  by (induction s arbitrary: first rest) (auto split: list.splits if_splits)

lemma format_response_returns: "\<exists>line. format_response response = Inr line"
  using split_on_not_Nil [of newline "strip response"]
  by (cases "split_on newline (strip response)") (auto simp: format_response_def)

section \<open>The response formatter\<close>

text \<open>
  C4, as the code has it. The response is stripped of surrounding whitespace and cut at
  its first newline. The fixed summary is returned when the marker
  \<^verbatim>\<open>Sample data from\<close> occurs anywhere in that first line (the source tests \<^verbatim>\<open>in\<close>, not
  \<^verbatim>\<open>startswith\<close>); otherwise the first line of the stripped response is returned and
  the lines after it are dropped. The formatter never raises.
\<close>

theorem format_response_first_line:
  "\<exists>first_line rest.
     split_on newline (strip response) = first_line # rest \<and>
     join [newline] (first_line # rest) = strip response \<and>
     newline \<notin> set first_line \<and>
     format_response response =
       Inr (if (\<exists>a b. first_line = a @ ''Sample data from'' @ b)
            then ''I have identified some sample data. Please specify if you need more details.''
            else first_line)"
proof -
  obtain first_line rest where sp: "split_on newline (strip response) = first_line # rest"
    using split_on_not_Nil [of newline "strip response"]
    by (cases "split_on newline (strip response)") auto
  have j: "join [newline] (first_line # rest) = strip response"
    using join_split_on [of newline "strip response"] sp by simp
  have n: "newline \<notin> set first_line"
    using split_on_first [OF sp] .
  have f: "format_response response =
       Inr (if (\<exists>a b. first_line = a @ ''Sample data from'' @ b)
            then ''I have identified some sample data. Please specify if you need more details.''
            else first_line)"
    using sp by (simp add: format_response_def sample_marker_def sample_summary_def py_in_iff)
  from sp j n f show ?thesis by blast
qed

theorem format_response_first_line_witness:
  "format_response (''  The sky is blue.'' @ [newline] @ ''It is day. '') = Inr ''The sky is blue.''"
  using format_response_first_line [of "''  The sky is blue.'' @ [newline] @ ''It is day. ''"]
  by (simp add: format_response_def strip_def isspace_def newline_def sample_marker_def)

text \<open>
  C4 as stated fails: a first line that contains the marker without beginning with it
  gets the fixed summary, not the line.
\<close>

theorem format_response_counterexample:
  "format_response ''See: Sample data from orders'' =
     Inr ''I have identified some sample data. Please specify if you need more details.''
   \<and> split_on newline (strip ''See: Sample data from orders'') = [''See: Sample data from orders'']
   \<and> \<not> startswith ''See: Sample data from orders'' ''Sample data from''"
  by (simp add: format_response_def strip_def isspace_def newline_def sample_marker_def
      sample_summary_def startswith_def)

section \<open>The assistant: clear and ask\<close>

text \<open>
  C9. \<^verbatim>\<open>clear()\<close> is idempotent: a second call changes nothing, the chain is unset
  after one call and after two, and \<^verbatim>\<open>ask\<close> answers with the guidance both times.
\<close>

theorem clear_idempotent:
  "clear (clear self) = clear self \<and>
   clear self = \<lparr>vector_store = None, retriever = None, chain = None, context = ''''\<rparr> \<and>
   ask be (clear self) query = Inr ''Please, add a document or connect to a database first.'' \<and>
   ask be (clear (clear self)) query = Inr ''Please, add a document or connect to a database first.''"
  by (simp add: clear_def ask_def guidance_def)

theorem clear_idempotent_witness:
  "clear (clear demo_chat) = clear demo_chat \<and> clear demo_chat = init_chat \<and>
   chain demo_chat \<noteq> None \<and>
   ask demo_backend (clear (clear demo_chat)) ''What color is the sky?'' =
     Inr ''Please, add a document or connect to a database first.''"
proof -
  note t = clear_idempotent [of demo_chat demo_backend "''What color is the sky?''"]
  have i: "clear demo_chat = init_chat"
    by (simp add: clear_def init_chat_def)
  have c: "chain demo_chat \<noteq> None"
    by (simp add: demo_chat_def ingest_document_def ingest_document_try_def
        initialize_vector_store_def demo_backend_def)
  from t i c show ?thesis by blast
qed

text \<open>
  C2. With the chain unset, as \<^verbatim>\<open>__init__\<close> and \<^verbatim>\<open>clear()\<close> leave it, \<^verbatim>\<open>ask\<close> returns the
  guidance and does not raise, whatever the backends would do.
\<close>

theorem ask_fresh_guidance:
  "(chain self = None \<longrightarrow>
      ask be self query = Inr ''Please, add a document or connect to a database first.'') \<and>
   chain init_chat = None \<and> chain (clear self) = None"
  by (simp add: ask_def guidance_def init_chat_def clear_def)

theorem ask_fresh_guidance_witness:
  "chain init_chat = None \<and>
   ask failing_search_backend init_chat ''What color is the sky?'' =
     Inr ''Please, add a document or connect to a database first.''"
  using ask_fresh_guidance [of init_chat failing_search_backend "''What color is the sky?''"]
  by (simp add: init_chat_def)

text \<open>
  C7. \<^verbatim>\<open>ask\<close> never raises: it always returns a text. When the search of the retriever
  raises, or the invocation of the chain raises, the answer is the text
  \<^verbatim>\<open>Error during query processing:\<close> followed by the message of the exception; the
  formatter itself cannot raise.
\<close>

theorem ask_never_raises:
  "(\<exists>answer. ask be self query = Inr answer) \<and>
   (chain self = Some c \<and> retriever self = Some r \<and>
    get_relevant_documents be r query = Inl e \<longrightarrow>
      ask be self query = Inr (''Error during query processing: '' @ exn_str e)) \<and>
   (chain self = Some c \<and> retriever self = Some r \<and>
    get_relevant_documents be r query = Inr context_docs \<and>
    invoke be c (ask_context self context_docs) query = Inl e \<longrightarrow>
      ask be self query = Inr (''Error during query processing: '' @ exn_str e)) \<and>
   (chain self = Some c \<and> retriever self = None \<longrightarrow>
      (\<exists>m. ask be self query = Inr (''Error during query processing: '' @ m))) \<and>
   (\<exists>line. format_response response = Inr line)"
proof -
  have a: "\<exists>answer. ask be self query = Inr answer"
    by (auto simp: ask_def split: option.splits sum.splits)
  have b: "chain self = Some c \<and> retriever self = Some r \<and>
    get_relevant_documents be r query = Inl e \<longrightarrow>
      ask be self query = Inr (''Error during query processing: '' @ exn_str e)"
    by (simp add: ask_def ask_try_def)
  have c: "chain self = Some c \<and> retriever self = Some r \<and>
    get_relevant_documents be r query = Inr context_docs \<and>
    invoke be c (ask_context self context_docs) query = Inl e \<longrightarrow>
      ask be self query = Inr (''Error during query processing: '' @ exn_str e)"
    by (simp add: ask_def ask_try_def)
  have d: "chain self = Some c \<and> retriever self = None \<longrightarrow>
      (\<exists>m. ask be self query = Inr (''Error during query processing: '' @ m))"
    by (simp add: ask_def ask_try_def)
  from a b c d format_response_returns [of response] show ?thesis by blast
qed

theorem ask_never_raises_witness:
  "chain demo_chat = Some (Chain (Retriever (Chroma [Document ''The sky is blue.'']))) \<and>
   ask failing_search_backend demo_chat ''What color is the sky?'' =
     Inr ''Error during query processing: connection refused'' \<and>
   ask failing_model_backend demo_chat ''What color is the sky?'' =
     Inr ''Error during query processing: model not found''"
proof -
  let ?r = "Retriever (Chroma [Document ''The sky is blue.''])"
  let ?q = "''What color is the sky?''"
  have c: "chain demo_chat = Some (Chain ?r)" and r: "retriever demo_chat = Some ?r"
    by (simp_all add: demo_chat_def ingest_document_def ingest_document_try_def
        initialize_vector_store_def demo_backend_def)
  have s: "get_relevant_documents failing_search_backend ?r ?q =
      Inl (OtherException ''connection refused'')"
    by (simp add: failing_search_backend_def)
  have g: "get_relevant_documents failing_model_backend ?r ?q = Inr []"
    by (simp add: failing_model_backend_def demo_backend_def)
  have m: "invoke failing_model_backend (Chain ?r) (ask_context demo_chat []) ?q =
      Inl (OtherException ''model not found'')"
    by (simp add: failing_model_backend_def)
  have a1: "ask failing_search_backend demo_chat ?q =
      Inr (''Error during query processing: '' @ exn_str (OtherException ''connection refused''))"
    using ask_never_raises [of failing_search_backend demo_chat ?q "Chain ?r" ?r
        "OtherException ''connection refused''"] c r s
    by blast
  have a2: "ask failing_model_backend demo_chat ?q =
      Inr (''Error during query processing: '' @ exn_str (OtherException ''model not found''))"
    using ask_never_raises [of failing_model_backend demo_chat ?q "Chain ?r" ?r
        "OtherException ''model not found''" "[]"] c r g m
    by blast
  from c a1 a2 show ?thesis by simp
qed

section \<open>The query generator\<close>

lemma fetch_loop_no_empty: "[] \<notin> set (fst (fetch_loop xs))"
  by (induction xs rule: fetch_loop.induct) (auto split: prod.splits)

lemma execute_try_no_empty: "[] \<notin> set (fst (execute_try drv q b))"
  using fetch_loop_no_empty [of "cursor_fetchmany drv q b"]
  by (auto simp: execute_try_def split: option.splits prod.splits if_splits)

lemma execute_try_not_operational:
  "snd (execute_try drv q b) = Some e \<Longrightarrow> \<not> is_operational e"
  by (auto simp: execute_try_def split: option.splits prod.splits if_splits)

lemma execute_query_no_empty: "[] \<notin> set (fst (fst (execute_query drv q b w)))"
  using execute_try_no_empty [of drv q b]
  by (auto simp: execute_query_def split: option.splits prod.splits sum.splits)

lemma execute_query_no_pool:
  "db_pool w = None \<Longrightarrow> execute_query drv q b w = (([], None), w)"
  by (simp add: execute_query_def get_connection_def)

lemma execute_query_no_connection:
  "getconn drv = Inr None \<or> getconn drv = Inl (OperationalError m) \<Longrightarrow>
   execute_query drv q b w = (([], None), w)"
  by (auto simp: execute_query_def get_connection_def split: option.splits)

lemma execute_query_healthy:
  assumes "healthy drv" and "db_pool w = Some n"
  shows "execute_query drv q b w = (execute_try drv q b, w\<lparr>executed := executed w @ [q]\<rparr>)"
  using assms
  by (cases "execute_try drv q b")
     (simp add: healthy_def execute_query_def get_connection_def execute_finally_def
       release_connection_def)

lemma execute_try_operational:
  "cursor_execute drv q = Some (OperationalError m) \<Longrightarrow> execute_try drv q b = ([], None)"
  by (simp add: execute_try_def)

lemma execute_try_other:
  "cursor_execute drv q = Some e \<Longrightarrow> \<not> is_operational e \<Longrightarrow> execute_try drv q b = ([], Some e)"
  by (simp add: execute_try_def)


lemma healthy_demo: "healthy demo_driver"
  by (simp add: healthy_def demo_driver_def)

lemma healthy_unreachable: "healthy unreachable_driver"
  by (simp add: healthy_def demo_driver_def unreachable_driver_def)


text \<open>
  C10, as the code has it. The generator never yields an empty batch or \<^verbatim>\<open>None\<close>. With
  no pool, or when \<^verbatim>\<open>getconn\<close> gives no connection or raises an \<^verbatim>\<open>OperationalError\<close>, it
  yields nothing and raises nothing. With a healthy driver and an initialised pool, the
  cursor is closed and the connection is back in the pool after the run whatever the
  query did, an \<^verbatim>\<open>OperationalError\<close> of \<^verbatim>\<open>cursor.execute\<close> is swallowed and nothing is
  yielded, and the only exceptions that reach the caller are those that are not an
  \<^verbatim>\<open>OperationalError\<close>: such an exception of \<^verbatim>\<open>cursor.execute\<close> is raised to the caller.
\<close>

theorem execute_query_contract:
  "[] \<notin> set (fst (fst (execute_query drv query batch_size w))) \<and>
   (db_pool w = None \<or> getconn drv = Inr None \<or> getconn drv = Inl (OperationalError m) \<longrightarrow>
      execute_query drv query batch_size w = (([], None), w)) \<and>
   (healthy drv \<and> db_pool w = Some n \<longrightarrow>
      db_pool (snd (execute_query drv query batch_size w)) = db_pool w \<and>
      open_cursors (snd (execute_query drv query batch_size w)) = open_cursors w \<and>
      executed (snd (execute_query drv query batch_size w)) = executed w @ [query] \<and>
      (\<forall>e. snd (fst (execute_query drv query batch_size w)) = Some e \<longrightarrow> \<not> is_operational e)) \<and>
   (healthy drv \<and> db_pool w = Some n \<and> cursor_execute drv query = Some (OperationalError m) \<longrightarrow>
      fst (execute_query drv query batch_size w) = ([], None)) \<and>
   (healthy drv \<and> db_pool w = Some n \<and> cursor_execute drv query = Some (OtherException m) \<longrightarrow>
      fst (execute_query drv query batch_size w) = ([], Some (OtherException m)))"
proof -
  have a: "[] \<notin> set (fst (fst (execute_query drv query batch_size w)))"
    by (rule execute_query_no_empty)
  have b: "db_pool w = None \<or> getconn drv = Inr None \<or> getconn drv = Inl (OperationalError m) \<longrightarrow>
      execute_query drv query batch_size w = (([], None), w)"
    using execute_query_no_pool [of w drv query batch_size]
      execute_query_no_connection [of drv m query batch_size w] by blast
  have c: "healthy drv \<and> db_pool w = Some n \<longrightarrow>
      db_pool (snd (execute_query drv query batch_size w)) = db_pool w \<and>
      open_cursors (snd (execute_query drv query batch_size w)) = open_cursors w \<and>
      executed (snd (execute_query drv query batch_size w)) = executed w @ [query] \<and>
      (\<forall>e. snd (fst (execute_query drv query batch_size w)) = Some e \<longrightarrow> \<not> is_operational e)"
    using execute_try_not_operational [of drv query batch_size]
    by (auto simp: execute_query_healthy)
  have d: "healthy drv \<and> db_pool w = Some n \<and> cursor_execute drv query = Some (OperationalError m) \<longrightarrow>
      fst (execute_query drv query batch_size w) = ([], None)"
    by (auto simp: execute_query_healthy execute_try_operational)
  have e: "healthy drv \<and> db_pool w = Some n \<and> cursor_execute drv query = Some (OtherException m) \<longrightarrow>
      fst (execute_query drv query batch_size w) = ([], Some (OtherException m))"
    by (auto simp: execute_query_healthy execute_try_other)
  from a b c d e show ?thesis by blast
qed


theorem execute_query_contract_witness:
  "execute_query demo_driver ''SELECT 1'' None (demo_db\<lparr>db_pool := None\<rparr>) =
     (([], None), demo_db\<lparr>db_pool := None\<rparr>) \<and>
   execute_query unreachable_driver ''SELECT 1'' None demo_db =
     (([], None), demo_db\<lparr>executed := [''SELECT 1'']\<rparr>) \<and>
   execute_query demo_driver (data_query ''users'') (Some 1000) demo_db =
     (([[[''1'', ''Ann'']]], None), demo_db\<lparr>executed := [''SELECT * FROM users'']\<rparr>)"
proof -
  have p: "db_pool demo_db = Some 0"
    by (simp add: demo_db_def)
  have x: "cursor_execute unreachable_driver ''SELECT 1'' =
      Some (OperationalError ''server closed the connection unexpectedly'')"
    by (simp add: unreachable_driver_def)
  have a: "execute_query demo_driver ''SELECT 1'' None (demo_db\<lparr>db_pool := None\<rparr>) =
     (([], None), demo_db\<lparr>db_pool := None\<rparr>)"
    using execute_query_contract [of demo_driver "''SELECT 1''" None "demo_db\<lparr>db_pool := None\<rparr>"]
    by simp
  note t = execute_query_contract [of unreachable_driver "''SELECT 1''" None demo_db
      "''server closed the connection unexpectedly''" 0]
  have b1: "fst (execute_query unreachable_driver ''SELECT 1'' None demo_db) = ([], None)"
    using t healthy_unreachable p x by blast
  have b2: "db_pool (snd (execute_query unreachable_driver ''SELECT 1'' None demo_db)) = db_pool demo_db \<and>
      open_cursors (snd (execute_query unreachable_driver ''SELECT 1'' None demo_db)) = open_cursors demo_db \<and>
      executed (snd (execute_query unreachable_driver ''SELECT 1'' None demo_db)) = executed demo_db @ [''SELECT 1'']"
    using t healthy_unreachable p by blast
  have b: "execute_query unreachable_driver ''SELECT 1'' None demo_db =
     (([], None), demo_db\<lparr>executed := [''SELECT 1'']\<rparr>)"
    using b1 b2 by (cases "execute_query unreachable_driver ''SELECT 1'' None demo_db")
      (simp add: demo_db_def)
  have c: "execute_query demo_driver (data_query ''users'') (Some 1000) demo_db =
     (([[[''1'', ''Ann'']]], None), demo_db\<lparr>executed := [''SELECT * FROM users'']\<rparr>)"
    by code_simp
  from a b c show ?thesis by blast
qed


text \<open>
  C10 as stated fails: the handler catches \<^verbatim>\<open>OperationalError\<close> only, so the error of a
  query on a table that does not exist is raised to the caller.
\<close>

theorem execute_query_counterexample:
  "fst (execute_query demo_driver ''SELECT * FROM missing'' None demo_db) =
     ([], Some (OtherException ''relation missing does not exist''))"
  by code_simp


section \<open>Ingestion of tables\<close>

lemma fetch_table_rows_healthy:
  assumes "healthy drv" and "db_pool w = Some n"
  shows "fetch_table_rows drv table (cs, w) =
    (snd (execute_try drv (data_query table) (Some 1000)),
     cs @ map (row_chunk table) (concat (fst (execute_try drv (data_query table) (Some 1000)))),
     w\<lparr>executed := executed w @ [data_query table]\<rparr>)"
  using assms
  by (simp add: fetch_table_rows_def execute_query_healthy split: prod.splits)

lemma fetch_table_data_pool:
  assumes "healthy drv" and "db_pool w = Some n"
  shows "db_pool (snd (snd (fetch_table_data drv table (cs, w)))) = Some n"
  using assms
  by (simp add: fetch_table_data_def execute_query_healthy [of drv _ n]
      fetch_table_rows_healthy [of drv _ n] split: sum.splits)

lemma fetch_relationships_pool:
  assumes "healthy drv" and "db_pool w = Some n"
  shows "db_pool (snd (snd (fetch_relationships drv (cs, w)))) = Some n"
  using assms
  by (simp add: fetch_relationships_def execute_query_healthy [of drv _ n] split: sum.splits)

lemma list_of_raises: "snd run = Some e \<Longrightarrow> list_of run = Inl e"
  by (cases run) (simp add: list_of_def)

lemma fetch_table_data_raises:
  assumes "healthy drv" and "db_pool w = Some n"
    and "cursor_execute drv (metadata_query table) = Some e \<or>
         cursor_execute drv (data_query table) = Some e"
    and "\<not> is_operational e"
  shows "fst (fetch_table_data drv table (cs, w)) \<noteq> None"
proof (cases "cursor_execute drv (metadata_query table) = Some e")
  case True
  then have "list_of (execute_try drv (metadata_query table) None) = Inl e"
    using assms(4) by (simp add: execute_try_other list_of_def)
  then show ?thesis
    using assms(1,2) by (simp add: fetch_table_data_def execute_query_healthy)
next
  case False
  with assms(3) have "cursor_execute drv (data_query table) = Some e" by simp
  then have r: "execute_try drv (data_query table) (Some 1000) = ([], Some e)"
    using assms(4) by (simp add: execute_try_other)
  have rows: "\<And>cs' w'. db_pool w' = Some n \<Longrightarrow> fst (fetch_table_rows drv table (cs', w')) = Some e"
    using assms(1) r by (simp add: fetch_table_rows_healthy)
  show ?thesis
    using assms(1,2) rows
    by (simp add: fetch_table_data_def execute_query_healthy split: sum.splits)
qed

lemma gather_invariant:
  assumes "\<And>t cs w. t \<in> set ts \<Longrightarrow> I w \<Longrightarrow> I (snd (snd (t (cs, w))))" and "I w"
  shows "I (snd (snd (gather ts (cs, w))))"
  using assms
proof (induction ts arbitrary: cs w)
  case Nil
  then show ?case by simp
next
  case (Cons t ts)
  obtain r1 cs1 w1 where t: "t (cs, w) = (r1, cs1, w1)" by (cases "t (cs, w)") auto
  have "I w1" using Cons.prems(1) [of t w cs] Cons.prems(2) t by simp
  then have "I (snd (snd (gather ts (cs1, w1))))"
    using Cons.IH [of w1 cs1] Cons.prems(1) by simp
  then show ?case using t by (auto split: prod.splits)
qed

lemma gather_raises:
  assumes "\<And>t cs w. t \<in> set ts \<Longrightarrow> I w \<Longrightarrow> I (snd (snd (t (cs, w))))"
    and "t \<in> set ts" and "\<And>cs w. I w \<Longrightarrow> fst (t (cs, w)) \<noteq> None" and "I w"
  shows "fst (gather ts (cs, w)) \<noteq> None"
  using assms
proof (induction ts arbitrary: cs w)
  case Nil
  then show ?case by simp
next
  case (Cons u us)
  obtain r1 cs1 w1 where u: "u (cs, w) = (r1, cs1, w1)" by (cases "u (cs, w)") auto
  have w1: "I w1" using Cons.prems(1) [of u w cs] Cons.prems(4) u by simp
  show ?case
  proof (cases "t = u")
    case True
    then have "r1 \<noteq> None" using Cons.prems(3) [of w cs] Cons.prems(4) u by simp
    then show ?thesis using u by (auto split: prod.splits)
  next
    case False
    with Cons.prems(2) have "t \<in> set us" by simp
    then have "fst (gather us (cs1, w1)) \<noteq> None"
      using Cons.IH [of w1 cs1] Cons.prems(1,3) w1 by simp
    then show ?thesis using u by (auto split: prod.splits option.splits)
  qed
qed

lemma ingest_tasks_pool:
  assumes "healthy drv" and "t \<in> set (ingest_tasks drv tables)" and "db_pool w = Some n"
  shows "db_pool (snd (snd (t (cs, w)))) = Some n"
  using assms fetch_table_data_pool fetch_relationships_pool
  by (auto simp: ingest_tasks_def)


text \<open>
  C1, as the code has it. With a healthy driver and an initialised pool, when
  \<^verbatim>\<open>cursor.execute\<close> raises an exception that is not an \<^verbatim>\<open>OperationalError\<close> for the
  metadata query or the row query of one of the tables, \<^verbatim>\<open>ingest_database\<close> returns the
  text \<^verbatim>\<open>Error during database ingestion:\<close> with the message of an exception, and the
  assistant is left as it was: the vector store is not rebuilt and the chunks of the
  other tables are dropped with the rest.
\<close>

theorem ingest_database_all_or_nothing:
  assumes "healthy drv" and "db_pool w = Some n" and "table \<in> set tables"
    and "cursor_execute drv (metadata_query table) = Some e \<or>
         cursor_execute drv (data_query table) = Some e"
    and "\<not> is_operational e"
  shows "\<exists>e' w'. ingest_database drv be tables (self, w) =
           (Some (''Error during database ingestion: '' @ exn_str e'), self, w')"
proof -
  have m: "fetch_table_data drv table \<in> set (ingest_tasks drv tables)"
    using assms(3) by (simp add: ingest_tasks_def)
  have "fst (gather (ingest_tasks drv tables) ([], w)) \<noteq> None"
  proof (rule gather_raises [where I = "\<lambda>w. db_pool w = Some n" and t = "fetch_table_data drv table"])
    show "\<And>t cs w. t \<in> set (ingest_tasks drv tables) \<Longrightarrow> db_pool w = Some n \<Longrightarrow>
        db_pool (snd (snd (t (cs, w)))) = Some n"
      using ingest_tasks_pool [OF assms(1)] by blast
    show "fetch_table_data drv table \<in> set (ingest_tasks drv tables)" by (rule m)
    show "\<And>cs w. db_pool w = Some n \<Longrightarrow> fst (fetch_table_data drv table (cs, w)) \<noteq> None"
      using fetch_table_data_raises [OF assms(1) _ assms(4) assms(5)] by blast
    show "db_pool w = Some n" by (rule assms(2))
  qed
  then obtain e' cs' w' where "gather (ingest_tasks drv tables) ([], w) = (Some e', cs', w')"
    by (cases "gather (ingest_tasks drv tables) ([], w)") auto
  then show ?thesis by (auto simp: ingest_database_def)
qed


theorem ingest_database_all_or_nothing_witness:
  "healthy demo_driver \<and> db_pool demo_db = Some 0 \<and>
   cursor_execute demo_driver (data_query ''missing'') =
     Some (OtherException ''relation missing does not exist'') \<and>
   (\<exists>e' w'. ingest_database demo_driver demo_backend [''missing'', ''users''] (init_chat, demo_db) =
      (Some (''Error during database ingestion: '' @ exn_str e'), init_chat, w'))"
proof -
  have h: "healthy demo_driver" by (rule healthy_demo)
  have p: "db_pool demo_db = Some 0" by (simp add: demo_db_def)
  have t: "''missing'' \<in> set [''missing'', ''users'']" by simp
  have x: "cursor_execute demo_driver (data_query ''missing'') =
     Some (OtherException ''relation missing does not exist'')"
    by (simp add: demo_driver_def)
  have n: "\<not> is_operational (OtherException ''relation missing does not exist'')" by simp
  have "\<exists>e' w'. ingest_database demo_driver demo_backend [''missing'', ''users''] (init_chat, demo_db) =
      (Some (''Error during database ingestion: '' @ exn_str e'), init_chat, w')"
    using ingest_database_all_or_nothing [OF h p t _ n, of demo_backend init_chat] x by blast
  with h p x show ?thesis by blast
qed


text \<open>
  C1 as stated fails: the row of \<^verbatim>\<open>users\<close> was fetched and put into a chunk, and the
  failure of the other table discards it; nothing reaches the vector store.
\<close>

theorem ingest_database_counterexample:
  "row_chunk ''users'' [''1'', ''Ann''] \<in>
     set (fst (snd (gather (ingest_tasks demo_driver [''missing'', ''users'']) ([], demo_db)))) \<and>
   fst (ingest_database demo_driver demo_backend [''missing'', ''users''] (init_chat, demo_db)) =
     Some ''Error during database ingestion: relation missing does not exist'' \<and>
   fst (snd (ingest_database demo_driver demo_backend [''missing'', ''users''] (init_chat, demo_db))) =
     init_chat \<and>
   vector_store init_chat = None"
  by code_simp



section \<open>The query texts that reach the database\<close>

lemma executed_execute_query:
  "executed (snd (execute_query drv q b w)) = executed w \<or>
   executed (snd (execute_query drv q b w)) = executed w @ [q]"
  by (auto simp: execute_query_def get_connection_def execute_finally_def release_connection_def
      split: option.splits prod.splits sum.splits if_splits)

lemma executed_execute_query_subset:
  "set (executed (snd (execute_query drv q b w))) \<subseteq> insert q (set (executed w))"
  using executed_execute_query [of drv q b w] by auto

lemma executed_fetch_table_rows:
  "set (executed (snd (snd (fetch_table_rows drv table (cs, w))))) \<subseteq>
     insert (data_query table) (set (executed w))"
  using executed_execute_query_subset [of drv "data_query table" "Some 1000" w]
  by (auto simp: fetch_table_rows_def split: prod.splits)

lemma executed_fetch_table_data:
  "set (executed (snd (snd (fetch_table_data drv table (cs, w))))) \<subseteq>
     set (executed w) \<union> {metadata_query table, data_query table}"
proof -
  obtain run w1 where e: "execute_query drv (metadata_query table) None w = (run, w1)"
    by (cases "execute_query drv (metadata_query table) None w") auto
  have w1: "set (executed w1) \<subseteq> insert (metadata_query table) (set (executed w))"
    using executed_execute_query_subset [of drv "metadata_query table" None w] e by simp
  have rows: "\<And>cs'. set (executed (snd (snd (fetch_table_rows drv table (cs', w1))))) \<subseteq>
      set (executed w) \<union> {metadata_query table, data_query table}"
    using executed_fetch_table_rows [of drv table _ w1] w1 by blast
  show ?thesis
    using e w1 rows by (auto simp: fetch_table_data_def split: sum.splits)
qed

lemma executed_fetch_relationships:
  "set (executed (snd (snd (fetch_relationships drv (cs, w))))) \<subseteq>
     insert relationship_query (set (executed w))"
  using executed_execute_query_subset [of drv relationship_query None w]
  by (auto simp: fetch_relationships_def split: prod.splits sum.splits)

lemma executed_ingest_tasks:
  assumes "t \<in> set (ingest_tasks drv tables)"
  shows "set (executed (snd (snd (t (cs, w))))) \<subseteq>
     set (executed w) \<union> ({relationship_query} \<union> metadata_query ` set tables \<union> data_query ` set tables)"
proof (cases "t = fetch_relationships drv")
  case True
  then show ?thesis using executed_fetch_relationships [of drv cs w] by auto
next
  case False
  with assms obtain table where tb: "table \<in> set tables" and t: "t = fetch_table_data drv table"
    by (auto simp: ingest_tasks_def)
  show ?thesis using executed_fetch_table_data [of drv table cs w] tb t by auto
qed

lemma executed_gather_ingest_tasks:
  "set (executed (snd (snd (gather (ingest_tasks drv tables) (cs, w))))) \<subseteq>
     set (executed w) \<union> ({relationship_query} \<union> metadata_query ` set tables \<union> data_query ` set tables)"
proof (rule gather_invariant [where I = "\<lambda>w'. set (executed w') \<subseteq>
     set (executed w) \<union> ({relationship_query} \<union> metadata_query ` set tables \<union> data_query ` set tables)"])
  fix t :: task and cs' :: "document list" and w' :: db
  assume "t \<in> set (ingest_tasks drv tables)"
    and "set (executed w') \<subseteq>
     set (executed w) \<union> ({relationship_query} \<union> metadata_query ` set tables \<union> data_query ` set tables)"
  then show "set (executed (snd (snd (t (cs', w'))))) \<subseteq>
     set (executed w) \<union> ({relationship_query} \<union> metadata_query ` set tables \<union> data_query ` set tables)"
    using executed_ingest_tasks [of t drv tables cs' w'] by blast
next
  show "set (executed w) \<subseteq>
     set (executed w) \<union> ({relationship_query} \<union> metadata_query ` set tables \<union> data_query ` set tables)"
    by blast
qed

lemma snd_snd_ingest_database:
  "snd (snd (ingest_database drv be tables (self, w))) =
     snd (snd (gather (ingest_tasks drv tables) ([], w)))"
  by (auto simp: ingest_database_def split: prod.splits option.splits)

lemma executed_insights_loop:
  "set (executed (snd (insights_loop drv py_repr tables (insights, w)))) \<subseteq>
     set (executed w) \<union> sample_query ` set tables"
proof (induction tables arbitrary: insights w)
  case Nil
  then show ?case by simp
next
  case (Cons table tables)
  obtain run w1 where e: "execute_query drv (sample_query table) None w = (run, w1)"
    by (cases "execute_query drv (sample_query table) None w") auto
  have w1: "set (executed w1) \<subseteq> insert (sample_query table) (set (executed w))"
    using executed_execute_query_subset [of drv "sample_query table" None w] e by simp
  have "\<And>ins. set (executed (snd (insights_loop drv py_repr tables (ins, w1)))) \<subseteq>
      set (executed w) \<union> sample_query ` set (table # tables)"
    using Cons.IH [of _ w1] w1 by auto
  then show ?case using e w1 by (auto split: sum.splits)
qed

lemma executed_generate_insights:
  "set (executed (snd (generate_insights drv py_repr tables query w))) \<subseteq>
     set (executed w) \<union> sample_query ` set tables"
  using executed_insights_loop [of drv py_repr tables "[]" w]
  by (auto simp: generate_insights_def split: prod.splits sum.splits)

lemma executed_mono_execute_query:
  "set (executed w) \<subseteq> set (executed (snd (execute_query drv q b w)))"
  using executed_execute_query [of drv q b w] by auto

lemma executed_mono_fetch_table_rows:
  "set (executed w) \<subseteq> set (executed (snd (snd (fetch_table_rows drv table (cs, w)))))"
  using executed_mono_execute_query [of w drv "data_query table" "Some 1000"]
  by (auto simp: fetch_table_rows_def split: prod.splits)

lemma executed_mono_fetch_table_data:
  "set (executed w) \<subseteq> set (executed (snd (snd (fetch_table_data drv table (cs, w)))))"
proof -
  obtain run w1 where e: "execute_query drv (metadata_query table) None w = (run, w1)"
    by (cases "execute_query drv (metadata_query table) None w") auto
  have w1: "set (executed w) \<subseteq> set (executed w1)"
    using executed_mono_execute_query [of w drv "metadata_query table" None] e by simp
  have rows: "\<And>cs'. set (executed w) \<subseteq> set (executed (snd (snd (fetch_table_rows drv table (cs', w1)))))"
    using executed_mono_fetch_table_rows [of w1 drv table] w1 by blast
  show ?thesis
    using e w1 rows by (auto simp: fetch_table_data_def split: sum.splits)
qed

lemma executed_mono_fetch_relationships:
  "set (executed w) \<subseteq> set (executed (snd (snd (fetch_relationships drv (cs, w)))))"
  using executed_mono_execute_query [of w drv relationship_query None]
  by (auto simp: fetch_relationships_def split: prod.splits sum.splits)

lemma executed_mono_ingest_tasks:
  assumes "t \<in> set (ingest_tasks drv tables)"
  shows "set (executed w) \<subseteq> set (executed (snd (snd (t (cs, w)))))"
  using assms executed_mono_fetch_table_data [of w drv _ cs]
    executed_mono_fetch_relationships [of w drv cs]
  by (auto simp: ingest_tasks_def)

lemma metadata_query_executed:
  assumes "healthy drv" and "db_pool w = Some n"
  shows "metadata_query table \<in> set (executed (snd (snd (fetch_table_data drv table (cs, w)))))"
proof -
  have "metadata_query table \<in> set (executed (w\<lparr>executed := executed w @ [metadata_query table]\<rparr>))"
    by simp
  moreover have "\<And>cs'. set (executed (w\<lparr>executed := executed w @ [metadata_query table]\<rparr>)) \<subseteq>
     set (executed (snd (snd (fetch_table_rows drv table
        (cs', w\<lparr>executed := executed w @ [metadata_query table]\<rparr>)))))"
    by (rule executed_mono_fetch_table_rows)
  ultimately have rows: "\<And>cs'. metadata_query table \<in>
     set (executed (snd (snd (fetch_table_rows drv table
        (cs', w\<lparr>executed := executed w @ [metadata_query table]\<rparr>)))))"
    by blast
  show ?thesis
    using assms rows
    by (simp add: fetch_table_data_def execute_query_healthy [of drv _ n] split: sum.splits)
qed

lemma gather_establishes:
  assumes "\<And>t cs w. t \<in> set ts \<Longrightarrow> I w \<Longrightarrow> I (snd (snd (t (cs, w))))"
    and "\<And>t cs w. t \<in> set ts \<Longrightarrow> P w \<Longrightarrow> P (snd (snd (t (cs, w))))"
    and "t \<in> set ts" and "\<And>cs w. I w \<Longrightarrow> P (snd (snd (t (cs, w))))" and "I w"
  shows "P (snd (snd (gather ts (cs, w))))"
  using assms
proof (induction ts arbitrary: cs w)
  case Nil
  then show ?case by simp
next
  case (Cons u us)
  obtain r1 cs1 w1 where u: "u (cs, w) = (r1, cs1, w1)" by (cases "u (cs, w)") auto
  have w1: "I w1" using Cons.prems(1) [of u w cs] Cons.prems(5) u by simp
  have g: "snd (snd (gather (u # us) (cs, w))) = snd (snd (gather us (cs1, w1)))"
    using u by (auto split: prod.splits)
  show ?case
  proof (cases "t = u")
    case True
    then have "P w1" using Cons.prems(4) [of w cs] Cons.prems(5) u by simp
    then have "P (snd (snd (gather us (cs1, w1))))"
      using gather_invariant [of us P w1 cs1] Cons.prems(2) by simp
    then show ?thesis using g by simp
  next
    case False
    with Cons.prems(3) have "t \<in> set us" by simp
    then have "P (snd (snd (gather us (cs1, w1))))"
      using Cons.IH [of w1 cs1] Cons.prems(1,2,4) w1 by simp
    then show ?thesis using g by simp
  qed
qed

lemma metadata_query_reaches_database:
  assumes "healthy drv" and "db_pool w = Some n" and "table \<in> set tables"
  shows "metadata_query table \<in> set (executed (snd (snd (gather (ingest_tasks drv tables) (cs, w)))))"
proof (rule gather_establishes [where I = "\<lambda>w. db_pool w = Some n"
      and P = "\<lambda>w. metadata_query table \<in> set (executed w)" and t = "fetch_table_data drv table"])
  show "\<And>t cs w. t \<in> set (ingest_tasks drv tables) \<Longrightarrow> db_pool w = Some n \<Longrightarrow>
      db_pool (snd (snd (t (cs, w)))) = Some n"
    using ingest_tasks_pool [OF assms(1)] by blast
  show "\<And>t cs w. t \<in> set (ingest_tasks drv tables) \<Longrightarrow> metadata_query table \<in> set (executed w) \<Longrightarrow>
      metadata_query table \<in> set (executed (snd (snd (t (cs, w)))))"
    using executed_mono_ingest_tasks by blast
  show "fetch_table_data drv table \<in> set (ingest_tasks drv tables)"
    using assms(3) by (simp add: ingest_tasks_def)
  show "\<And>cs w. db_pool w = Some n \<Longrightarrow>
      metadata_query table \<in> set (executed (snd (snd (fetch_table_data drv table (cs, w)))))"
    using metadata_query_executed [OF assms(1)] by blast
  show "db_pool w = Some n" by (rule assms(2))
qed

lemma metadata_query_text:
  "metadata_query table =
     (newline # ''                SELECT column_name, data_type'' @ newline #
      ''                FROM information_schema.columns'' @ newline #
      ''                WHERE table_name = '') @ [apostrophe] @ table @ [apostrophe] @
     ('';'' @ newline # ''                '')"
  by (simp add: metadata_query_def)


text \<open>
  C3, as the code has it. The core has no allow list and checks no name. Every query
  that \<^verbatim>\<open>ingest_database\<close> executes is the relationship query, or the metadata query or
  the row query of a name the caller passed; every query that \<^verbatim>\<open>generate_insights\<close>
  executes is the sample query of such a name. The name is put into the text as it is:
  between two apostrophes in the metadata query, and bare after \<^verbatim>\<open>SELECT * FROM\<close> in the
  other two. With a healthy driver and an initialised pool the metadata query of every
  name passed is executed, whatever the name is.
\<close>

theorem table_names_interpolated_verbatim:
  "set (executed (snd (snd (ingest_database drv be tables (self, w))))) \<subseteq>
     set (executed w) \<union> ({relationship_query} \<union> metadata_query ` set tables \<union> data_query ` set tables) \<and>
   set (executed (snd (generate_insights drv py_repr tables query w))) \<subseteq>
     set (executed w) \<union> sample_query ` set tables \<and>
   (healthy drv \<and> db_pool w = Some n \<and> table \<in> set tables \<longrightarrow>
      metadata_query table \<in> set (executed (snd (snd (ingest_database drv be tables (self, w)))))) \<and>
   data_query table = ''SELECT * FROM '' @ table \<and>
   sample_query table = ''SELECT * FROM '' @ table @ '' LIMIT 5'' \<and>
   (\<exists>before after. \<forall>t. metadata_query t = before @ [apostrophe] @ t @ [apostrophe] @ after)"
proof -
  have a: "set (executed (snd (snd (ingest_database drv be tables (self, w))))) \<subseteq>
     set (executed w) \<union> ({relationship_query} \<union> metadata_query ` set tables \<union> data_query ` set tables)"
    using executed_gather_ingest_tasks [of drv tables "[]" w]
    by (simp only: snd_snd_ingest_database)
  have b: "set (executed (snd (generate_insights drv py_repr tables query w))) \<subseteq>
     set (executed w) \<union> sample_query ` set tables"
    by (rule executed_generate_insights)
  have c: "healthy drv \<and> db_pool w = Some n \<and> table \<in> set tables \<longrightarrow>
      metadata_query table \<in> set (executed (snd (snd (ingest_database drv be tables (self, w)))))"
    using metadata_query_reaches_database [of drv w n table tables "[]"]
    by (simp only: snd_snd_ingest_database) blast
  have d: "data_query table = ''SELECT * FROM '' @ table"
    by (simp add: data_query_def)
  have e: "sample_query table = ''SELECT * FROM '' @ table @ '' LIMIT 5''"
    by (simp add: sample_query_def)
  have f: "\<exists>before after. \<forall>t. metadata_query t = before @ [apostrophe] @ t @ [apostrophe] @ after"
    using metadata_query_text by blast
  from a b c d e f show ?thesis by blast
qed


theorem table_names_interpolated_verbatim_witness:
  "metadata_query ''users; DROP TABLE users'' \<in>
     set (executed (snd (snd (ingest_database demo_driver demo_backend
       [''users; DROP TABLE users''] (init_chat, demo_db)))))"
proof -
  have h: "healthy demo_driver" by (rule healthy_demo)
  have p: "db_pool demo_db = Some 0" by (simp add: demo_db_def)
  have t: "''users; DROP TABLE users'' \<in> set [''users; DROP TABLE users'']" by simp
  show ?thesis
    using table_names_interpolated_verbatim [of demo_driver demo_backend
        "[''users; DROP TABLE users'']" init_chat demo_db _ _ 0 "''users; DROP TABLE users''"] h p t
    by blast
qed


text \<open>
  C3 as stated fails: a name that is not among the tables of the catalogue is put into
  a query, and the query is executed.
\<close>

theorem table_names_counterexample:
  "fst (get_table_names demo_driver demo_db) = Inr [''users'', ''orders''] \<and>
   ''users; DROP TABLE users'' \<notin> set [''users'', ''orders''] \<and>
   ''SELECT * FROM users; DROP TABLE users'' \<in>
     set (executed (snd (snd (ingest_database demo_driver demo_backend
       [''users; DROP TABLE users''] (init_chat, demo_db)))))"
  by code_simp


section \<open>Where the code departs from the specification\<close>

lemma ingest_document_context: "context (snd (ingest_document be pdf_file_path self)) = context self"
  by (auto simp: ingest_document_def initialize_vector_store_def split: sum.splits option.splits)

lemma ask_context_no_chunks: "ask_context self [] = context self"
  by (simp add: ask_context_def strip_def)

lemma ingest_database_context:
  assumes "gather (ingest_tasks drv tables) ([], w) = (None, all_chunks, w')"
  shows "context (fst (snd (ingest_database drv be tables (self, w)))) =
    join [newline] (map page_content all_chunks)"
  using assms
  by (auto simp: ingest_database_def initialize_vector_store_def split: option.splits)

lemma initialize_vector_store_failure:
  assumes "from_documents be chunks = Some e"
  shows "initialize_vector_store be chunks self =
    (Some (''Error initializing vector store: '' @ exn_str e), self)"
  using assms by (simp add: initialize_vector_store_def)

lemma relationship_query_column:
  "relationship_query =
     (join [newline] [[], ''                SELECT '',
        ''                    tc.table_name, kcu.column_name, ''] @ [newline] @
      ''                    '') @
     ''ccu.ss AS foreign_table_name'' @
     ('','' @ [newline] @ join [newline]
       [''                    ccu.column_name AS foreign_column_name '',
        ''                FROM '',
        ''                    information_schema.table_constraints AS tc '',
        ''                    JOIN information_schema.key_column_usage AS kcu'',
        ''                      ON tc.constraint_name = kcu.constraint_name'',
        ''                    JOIN information_schema.constraint_column_usage AS ccu '',
        ''                      ON ccu.constraint_name = tc.constraint_name'',
        ''                WHERE constraint_type = '' @ [apostrophe] @ ''FOREIGN KEY'' @ [apostrophe] @ '';'',
        ''                ''])"
  by (simp add: relationship_query_def)

lemma fetch_relationships_demo:
  "fetch_relationships demo_driver ([], demo_db) =
     (None, [Document (''Relationships among tables:'' @ [newline] @ ''orders (user_id) -> users (id)'')],
      demo_db\<lparr>executed := [relationship_query]\<rparr>)"
  by code_simp

text \<open>
  C5 holds for tables and fails for documents: \<^verbatim>\<open>ingest_database\<close> stores the joined
  chunk contents in \<^verbatim>\<open>self.context\<close>, and \<^verbatim>\<open>ingest_document\<close> never assigns it. After a
  document is ingested into a new assistant the vector store holds its chunk and the
  fallback context is the empty string, so a question for which the search finds nothing
  hands the model an empty context (the example model repeats what it was given).
\<close>

theorem ingest_document_drops_fallback_context:
  "vector_store (snd (ingest_document demo_backend ''report.pdf'' init_chat)) =
     Some (Chroma [Document ''The sky is blue.'']) \<and>
   context (snd (ingest_document demo_backend ''report.pdf'' init_chat)) = [] \<and>
   ask demo_backend (snd (ingest_document demo_backend ''report.pdf'' init_chat))
     ''What color is the sky?'' = Inr ''context:'' \<and>
   context (fst (snd (ingest_database demo_driver demo_backend [] (init_chat, demo_db)))) =
     ''Relationships among tables:'' @ [newline] @ ''orders (user_id) -> users (id)''"
  by code_simp

text \<open>
  C6 holds for the index and fails for the report: when the embedding backend is
  unreachable, \<^verbatim>\<open>_initialize_vector_store\<close> leaves the assistant as it was and returns an
  error text, and both ingestion functions drop that text and return \<^verbatim>\<open>None\<close>, which
  their caller reads as success.
\<close>

theorem rebuild_failure_not_surfaced:
  "from_documents failing_embedding_backend [Document ''The sky is blue.''] =
     Some (OtherException ''embedding backend unreachable'') \<and>
   initialize_vector_store failing_embedding_backend [Document ''The sky is blue.''] init_chat =
     (Some ''Error initializing vector store: embedding backend unreachable'', init_chat) \<and>
   ingest_document failing_embedding_backend ''report.pdf'' init_chat = (None, init_chat) \<and>
   fst (ingest_database demo_driver failing_embedding_backend [''users''] (demo_chat, demo_db)) = None \<and>
   vector_store (fst (snd (ingest_database demo_driver failing_embedding_backend [''users'']
     (demo_chat, demo_db)))) = Some (Chroma [Document ''The sky is blue.''])"
  by code_simp

text \<open>
  C8 fails on a database that checks its column names: the relationship query selects
  \<^verbatim>\<open>ccu.ss\<close>, the database rejects it with an error that is not an
  \<^verbatim>\<open>OperationalError\<close>, the relationship task raises without a chunk, and the whole
  ingestion returns the error text and builds no index.
\<close>

theorem relationship_query_malformed:
  "py_in ''ccu.ss AS foreign_table_name'' relationship_query \<and>
   fetch_relationships strict_driver ([], demo_db) =
     (Some (OtherException ''column ccu.ss does not exist''), [],
      demo_db\<lparr>executed := [relationship_query]\<rparr>) \<and>
   fst (ingest_database strict_driver demo_backend [''users''] (init_chat, demo_db)) =
     Some ''Error during database ingestion: column ccu.ss does not exist'' \<and>
   fst (snd (ingest_database strict_driver demo_backend [''users''] (init_chat, demo_db))) =
     init_chat"
proof -
  have a: "py_in ''ccu.ss AS foreign_table_name'' relationship_query"
    using relationship_query_column by (subst py_in_iff) blast
  have b: "fetch_relationships strict_driver ([], demo_db) =
     (Some (OtherException ''column ccu.ss does not exist''), [],
      demo_db\<lparr>executed := [relationship_query]\<rparr>)"
    by code_simp
  have c: "fst (ingest_database strict_driver demo_backend [''users''] (init_chat, demo_db)) =
     Some ''Error during database ingestion: column ccu.ss does not exist''"
    by code_simp
  have d: "fst (snd (ingest_database strict_driver demo_backend [''users''] (init_chat, demo_db))) =
     init_chat"
    by code_simp
  from a b c d show ?thesis by blast
qed

end
